theory Spec2Isabelle
  imports Complex_Main
begin

section \<open>Python values, strings and exceptions\<close>

text \<open>
  The adapter of \<^verbatim>\<open>Trading/Exchange/coinbase/coinbase_exchange.py\<close> works on
  dictionaries with string keys. The values stored under the keys it reads are
  \<^verbatim>\<open>None\<close>, booleans, numbers and strings; the number type \<open>'n\<close> is left open
  (only its zero, its one, which differ, and its division are used), so that nothing
  depends on how the host rounds.
\<close>

datatype 'n pyval = PNone | PBool bool | PNum 'n | PStr string

type_synonym 'n pydict = "string \<rightharpoonup> 'n pyval"

text \<open>Truth value testing (\<^verbatim>\<open>if x\<close>, \<^verbatim>\<open>not x\<close>).\<close>

fun truthy :: "('n::zero) pyval \<Rightarrow> bool" where
  "truthy PNone = False"
| "truthy (PBool b) = b"
| "truthy (PNum x) = (x \<noteq> 0)"
| "truthy (PStr s) = (s \<noteq> [])"

text \<open>\<^verbatim>\<open>sub in s\<close> on strings: \<open>sub\<close> occurs in \<open>s\<close> as a contiguous block.\<close>

fun starts_with :: "string \<Rightarrow> string \<Rightarrow> bool" where
  "starts_with s [] = True"
| "starts_with [] (c # sub) = False"
| "starts_with (d # s) (c # sub) = (d = c \<and> starts_with s sub)"

fun str_contains :: "string \<Rightarrow> string \<Rightarrow> bool" where
  "str_contains [] sub = (sub = [])"
| "str_contains (d # s) sub = (starts_with (d # s) sub \<or> str_contains s sub)"

text \<open>The decimal rendering of a natural number, as an f-string prints an \<^verbatim>\<open>int\<close>.\<close>

definition digit_char :: "nat \<Rightarrow> char" where
  "digit_char d = ''0123456789'' ! d"

fun show_nat :: "nat \<Rightarrow> string" where
  "show_nat n = (if n < 10 then [digit_char n] else show_nat (n div 10) @ [digit_char (n mod 10)])"

declare show_nat.simps [simp del]

text \<open>
  An exception is told apart by the \<^verbatim>\<open>except\<close> clauses of the file through the
  class it is an instance of: \<^verbatim>\<open>octobot_trading.errors.FailedRequest\<close>,
  \<^verbatim>\<open>octobot_trading.errors.RateLimitExceeded\<close>, \<^verbatim>\<open>ccxt.BaseError\<close> (any of its
  subclasses), or none of them. \<open>class_name\<close> is \<^verbatim>\<open>err.__class__.__name__\<close>,
  \<open>message\<close> is \<^verbatim>\<open>str(err)\<close>, \<open>cause\<close> is the \<^verbatim>\<open>__cause__\<close> set by
  \<^verbatim>\<open>raise ... from\<close>.
\<close>

datatype exn_kind =
  FailedRequest | RateLimitExceeded | BaseError | NotSupported | KeyError | TypeError
  | ZeroDivisionError | RuntimeError | OtherException

datatype exn = Exn (kind: exn_kind) (class_name: string) (message: string) (cause: "exn option")

datatype 'a outcome = Return 'a | Raise exn

text \<open>
  What the logger receives: a debug line, or an exception with its message
  (\<^verbatim>\<open>logger.exception(err, True, message)\<close>).
\<close>

datatype log_entry = LogDebug string | LogException exn string

text \<open>
  An awaited operation acts on the outside world: it maps the state of the world to its
  outcome and the state it leaves behind.
\<close>

type_synonym ('s, 'a) aop = "'s \<Rightarrow> 'a outcome \<times> 's"

text \<open>Counting the invocations of an operation, next to the state it acts on.\<close>

definition counted :: "('s, 'a) aop \<Rightarrow> ('s \<times> nat, 'a) aop" where
  "counted f = (\<lambda>(s, n). case f s of (r, s') \<Rightarrow> (r, (s', Suc n)))"

text \<open>The state after \<open>n\<close> invocations of \<open>f\<close> from \<open>s\<close>.\<close>

fun state_after :: "('s, 'a) aop \<Rightarrow> nat \<Rightarrow> 's \<Rightarrow> 's" where
  "state_after f 0 s = s"
| "state_after f (Suc n) s = state_after f n (snd (f s))"

section \<open>The retrier\<close>

definition FAKE_RATE_LIMIT_ERROR_INSTANT_RETRY_COUNT :: nat where
  "FAKE_RATE_LIMIT_ERROR_INSTANT_RETRY_COUNT = 5"

definition INSTANT_RETRY_ERROR_CODE :: string where
  "INSTANT_RETRY_ERROR_CODE = ''429''"

definition get_name :: string where
  "get_name = ''coinbase''"

text \<open>The classes named by the \<^verbatim>\<open>except\<close> clause of the retrier.\<close>

definition retrier_catches :: "exn \<Rightarrow> bool" where
  "retrier_catches err =
     (kind err = FailedRequest \<or> kind err = RateLimitExceeded \<or> kind err = BaseError)"

text \<open>
  An error that the retrier answers by an instant retry: one of the three classes, with
  the retry code in its text.
\<close>

definition instant_retry_error :: "exn \<Rightarrow> bool" where
  "instant_retry_error err =
     (retrier_catches err \<and> str_contains (message err) INSTANT_RETRY_ERROR_CODE)"

text \<open>
  The debug line of one instant retry. \<open>fname\<close> is \<^verbatim>\<open>f.__name__\<close>; \<open>args\<close> and
  \<open>kwargs\<close> are the renderings of \<^verbatim>\<open>args[1:]\<close> and \<^verbatim>\<open>kwargs\<close>.
\<close>

definition retry_debug_message :: "string \<Rightarrow> string \<Rightarrow> string \<Rightarrow> nat \<Rightarrow> exn \<Rightarrow> string" where
  "retry_debug_message fname args kwargs i err =
     INSTANT_RETRY_ERROR_CODE @ '' error on '' @ fname @ ''(args='' @ args @ '' kwargs='' @ kwargs
     @ '') request, retrying now. Attempt '' @ show_nat (i + 1) @ '' / ''
     @ show_nat FAKE_RATE_LIMIT_ERROR_INSTANT_RETRY_COUNT @ '', error: '' @ message err
     @ '' ('' @ class_name err @ '').''"

definition failed_request_message :: "string \<Rightarrow> string \<Rightarrow> string \<Rightarrow> exn \<Rightarrow> string" where
  "failed_request_message fname args kwargs last_error =
     ''Failed Coinbase request after '' @ show_nat FAKE_RATE_LIMIT_ERROR_INSTANT_RETRY_COUNT
     @ '' retries on '' @ fname @ ''(args='' @ args @ '' kwargs='' @ kwargs @ '') due to ''
     @ INSTANT_RETRY_ERROR_CODE @ '' error code. Last error: '' @ message last_error
     @ '' ('' @ class_name last_error @ '')''"

text \<open>
  The \<^verbatim>\<open>for i in range(...)\<close> loop of \<^verbatim>\<open>coinbase_retrier_wrapper\<close>, over the
  indices still to run, and the two statements after it. The result is the outcome of
  the call, the debug lines logged and the state of the world. Decorating a method with
  \<^verbatim>\<open>@_coinbase_retrier\<close> replaces it by this wrapper of its body.
\<close>

fun retrier_loop ::
  "string \<Rightarrow> string \<Rightarrow> string \<Rightarrow> ('s, 'a) aop \<Rightarrow> nat list \<Rightarrow> exn option \<Rightarrow> log_entry list \<Rightarrow> 's
     \<Rightarrow> 'a outcome \<times> log_entry list \<times> 's" where
  "retrier_loop fname args kwargs f [] last_error logged s =
     (let last_error' =
        (case last_error of
           None \<Rightarrow> Exn RuntimeError ''RuntimeError'' ''Unknown Coinbase error'' None
         | Some e \<Rightarrow> e)
      in (Raise (Exn FailedRequest ''FailedRequest''
                  (failed_request_message fname args kwargs last_error') (Some last_error')),
          logged, s))"
| "retrier_loop fname args kwargs f (i # rest) last_error logged s =
     (case f s of
        (Return v, s') \<Rightarrow> (Return v, logged, s')
      | (Raise err, s') \<Rightarrow>
          if retrier_catches err then
            if str_contains (message err) INSTANT_RETRY_ERROR_CODE then
              retrier_loop fname args kwargs f rest (Some err)
                (logged @ [LogDebug (retry_debug_message fname args kwargs i err)]) s'
            else (Raise err, logged, s')
          else (Raise err, logged, s'))"

definition coinbase_retrier_wrapper ::
  "string \<Rightarrow> string \<Rightarrow> string \<Rightarrow> ('s, 'a) aop \<Rightarrow> 's \<Rightarrow> 'a outcome \<times> log_entry list \<times> 's" where
  "coinbase_retrier_wrapper fname args kwargs f s =
     retrier_loop fname args kwargs f [0..<FAKE_RATE_LIMIT_ERROR_INSTANT_RETRY_COUNT] None [] s"

section \<open>Constants of the libraries the file imports\<close>

text \<open>
  Modelled from the spec: the values of the enumeration members and constants of
  \<^verbatim>\<open>octobot_trading\<close>, \<^verbatim>\<open>octobot_commons\<close> and the ccxt connector that the file
  names but does not define. The column names are the keys of the order shown in the
  docstring of \<^verbatim>\<open>fix_order\<close> (\<^verbatim>\<open>type\<close>, \<^verbatim>\<open>price\<close>, \<^verbatim>\<open>stopPrice\<close>,
  \<^verbatim>\<open>amount\<close>, \<^verbatim>\<open>filled\<close>, \<^verbatim>\<open>cost\<close>, \<^verbatim>\<open>status\<close>, \<^verbatim>\<open>info\<close>); the
  order types and statuses are the spec's \<^verbatim>\<open>stop_loss\<close>, \<^verbatim>\<open>market\<close>,
  \<^verbatim>\<open>limit\<close>, \<^verbatim>\<open>pending_creation\<close>, \<^verbatim>\<open>pending_cancel\<close> and \<^verbatim>\<open>closed\<close>; a
  minute has 60000 milliseconds.
\<close>

definition CCXT_TYPE :: string where "CCXT_TYPE = ''type''"
definition CCXT_STOP_PRICE :: string where "CCXT_STOP_PRICE = ''stopPrice''"
definition CCXT_PRICE :: string where "CCXT_PRICE = ''price''"
definition CCXT_STATUS :: string where "CCXT_STATUS = ''status''"
definition CCXT_AMOUNT :: string where "CCXT_AMOUNT = ''amount''"
definition CCXT_FILLED :: string where "CCXT_FILLED = ''filled''"
definition CCXT_INFO :: string where "CCXT_INFO = ''info''"

definition ECOC_TYPE :: string where "ECOC_TYPE = ''type''"
definition ECOC_STATUS :: string where "ECOC_STATUS = ''status''"
definition ECOC_AMOUNT :: string where "ECOC_AMOUNT = ''amount''"
definition ECOC_COST :: string where "ECOC_COST = ''cost''"
definition ECOC_PRICE :: string where "ECOC_PRICE = ''price''"

text \<open>
  Modelled from the spec: \<^verbatim>\<open>trading_enums.TradeOrderType\<close> and
  \<^verbatim>\<open>trading_enums.TraderOrderType\<close>, with the members the file names; every other
  member is kept by its name.
\<close>

datatype TradeOrderType = LIMIT | MARKET | STOP_LOSS | OtherTradeOrderType string

datatype TraderOrderType = BUY_MARKET | OtherTraderOrderType string

fun TradeOrderType_value :: "TradeOrderType \<Rightarrow> string" where
  "TradeOrderType_value LIMIT = ''limit''"
| "TradeOrderType_value MARKET = ''market''"
| "TradeOrderType_value STOP_LOSS = ''stop_loss''"
| "TradeOrderType_value (OtherTradeOrderType v) = v"

text \<open>\<^verbatim>\<open>str(order_type)\<close> of an enumeration member.\<close>

fun TraderOrderType_str :: "TraderOrderType \<Rightarrow> string" where
  "TraderOrderType_str BUY_MARKET = ''TraderOrderType.BUY_MARKET''"
| "TraderOrderType_str (OtherTraderOrderType n) = ''TraderOrderType.'' @ n"

definition PENDING_CREATION_value :: string where "PENDING_CREATION_value = ''pending_creation''"
definition PENDING_CANCEL_value :: string where "PENDING_CANCEL_value = ''pending_cancel''"
definition CLOSED_value :: string where "CLOSED_value = ''closed''"

definition MSECONDS_TO_MINUTE :: int where "MSECONDS_TO_MINUTE = 60000"

section \<open>Dictionaries and arithmetic that can raise\<close>

text \<open>\<^verbatim>\<open>str(KeyError(k))\<close> is the key between single quotes.\<close>

definition key_error :: "string \<Rightarrow> exn" where
  "key_error k = Exn KeyError ''KeyError'' ([CHR 0x27] @ k @ [CHR 0x27]) None"

text \<open>\<^verbatim>\<open>d[k]\<close>\<close>

definition lookup :: "'n pydict \<Rightarrow> string \<Rightarrow> exn + 'n pyval" where
  "lookup d k = (case d k of None \<Rightarrow> Inl (key_error k) | Some v \<Rightarrow> Inr v)"

definition bindE :: "exn + 'a \<Rightarrow> ('a \<Rightarrow> exn + 'b) \<Rightarrow> exn + 'b" where
  "bindE m f = (case m of Inl e \<Rightarrow> Inl e | Inr v \<Rightarrow> f v)"

text \<open>The operand of a division as a number: a boolean counts as 0 or 1.\<close>

fun num_of :: "('n::zero_neq_one) pyval \<Rightarrow> 'n option" where
  "num_of (PNum x) = Some x"
| "num_of (PBool b) = Some (if b then 1 else 0)"
| "num_of PNone = None"
| "num_of (PStr s) = None"

text \<open>\<^verbatim>\<open>a / b\<close>\<close>

definition py_truediv :: "('n::{zero_neq_one,divide}) pyval \<Rightarrow> 'n pyval \<Rightarrow> exn + 'n pyval" where
  "py_truediv a b =
     (case num_of a of
        None \<Rightarrow> Inl (Exn TypeError ''TypeError'' ''unsupported operand type(s) for /'' None)
      | Some x \<Rightarrow>
          (case num_of b of
             None \<Rightarrow> Inl (Exn TypeError ''TypeError'' ''unsupported operand type(s) for /'' None)
           | Some y \<Rightarrow>
               if y = 0 then Inl (Exn ZeroDivisionError ''ZeroDivisionError'' ''division by zero'' None)
               else Inr (PNum (x div y))))"

section \<open>The adapter: orders and trades\<close>

text \<open>
  \<^verbatim>\<open>CoinbaseCCXTAdapter.fix_order\<close>, after the call of the parent class: the type
  of an order that has none.
\<close>

definition fix_order_type :: "('n::zero) pydict \<Rightarrow> exn + 'n pydict" where
  "fix_order_type fixed =
     bindE (lookup fixed CCXT_TYPE) (\<lambda>t.
       if t = PNone then
         bindE (lookup fixed CCXT_STOP_PRICE) (\<lambda>stop_price.
           if stop_price \<noteq> PNone then
             Inr (fixed(ECOC_TYPE \<mapsto> PStr (TradeOrderType_value STOP_LOSS)))
           else
             bindE (lookup fixed CCXT_PRICE) (\<lambda>price.
               if price = PNone then
                 Inr (fixed(ECOC_TYPE \<mapsto> PStr (TradeOrderType_value MARKET)))
               else
                 Inr (fixed(ECOC_TYPE \<mapsto> PStr (TradeOrderType_value LIMIT)))))
       else Inr fixed)"

text \<open>The two status tests, one after the other.\<close>

definition fix_order_status :: "('n::zero) pydict \<Rightarrow> exn + 'n pydict" where
  "fix_order_status fixed =
     bindE (lookup fixed CCXT_STATUS) (\<lambda>status.
       let fixed1 =
         (if status = PStr ''PENDING'' then fixed(CCXT_STATUS \<mapsto> PStr PENDING_CREATION_value)
          else fixed)
       in bindE (lookup fixed1 CCXT_STATUS) (\<lambda>status1.
            if status1 = PStr ''CANCEL_QUEUED'' then
              Inr (fixed1(CCXT_STATUS \<mapsto> PStr PENDING_CANCEL_value))
            else Inr fixed1))"

text \<open>The amount, when it is not set; \<^verbatim>\<open>and\<close> reads \<^verbatim>\<open>filled\<close> only when it has to.\<close>

definition fix_order_amount :: "('n::zero) pydict \<Rightarrow> exn + 'n pydict" where
  "fix_order_amount fixed =
     bindE (lookup fixed CCXT_AMOUNT) (\<lambda>amount.
       if \<not> truthy amount then
         bindE (lookup fixed CCXT_FILLED) (\<lambda>filled.
           if truthy filled then Inr (fixed(CCXT_AMOUNT \<mapsto> filled)) else Inr fixed)
       else Inr fixed)"

text \<open>
  \<^verbatim>\<open>fix_order\<close>; \<open>super_fix_order\<close> is the method of the parent class, which the
  file calls first.
\<close>

definition fix_order ::
  "(('n::zero) pydict \<Rightarrow> exn + 'n pydict) \<Rightarrow> 'n pydict \<Rightarrow> exn + 'n pydict" where
  "fix_order super_fix_order raw =
     bindE (super_fix_order raw) (\<lambda>fixed.
       bindE (fix_order_type fixed) (\<lambda>fixed.
         bindE (fix_order_status fixed) (\<lambda>fixed.
           fix_order_amount fixed)))"

text \<open>
  The body of the loop of \<^verbatim>\<open>fix_trades\<close>: the status, then the \<^verbatim>\<open>try\<close> block,
  whose \<^verbatim>\<open>except KeyError: pass\<close> keeps the trade as it is at the failing lookup.
\<close>

definition fix_trade_amount :: "('n::{zero_neq_one,divide}) pydict \<Rightarrow> exn + 'n pydict" where
  "fix_trade_amount trade =
     bindE (lookup trade ECOC_AMOUNT) (\<lambda>amount.
       if amount = PNone then
         bindE (lookup trade ECOC_COST) (\<lambda>cost.
           if truthy cost then
             bindE (lookup trade ECOC_PRICE) (\<lambda>price.
               if truthy price then
                 bindE (py_truediv cost price) (\<lambda>q. Inr (trade(ECOC_AMOUNT \<mapsto> q)))
               else Inr trade)
           else Inr trade)
       else Inr trade)"

definition fix_trade :: "('n::{zero_neq_one,divide}) pydict \<Rightarrow> exn + 'n pydict" where
  "fix_trade trade0 =
     (let trade = trade0(ECOC_STATUS \<mapsto> PStr CLOSED_value)
      in case fix_trade_amount trade of
           Inr trade' \<Rightarrow> Inr trade'
         | Inl err \<Rightarrow> if kind err = KeyError then Inr trade else Inl err)"

fun fix_trades_loop :: "('n::{zero_neq_one,divide}) pydict list \<Rightarrow> exn + 'n pydict list" where
  "fix_trades_loop [] = Inr []"
| "fix_trades_loop (trade # rest) =
     bindE (fix_trade trade) (\<lambda>trade'.
       bindE (fix_trades_loop rest) (\<lambda>rest'. Inr (trade' # rest')))"

definition fix_trades ::
  "(('n::{zero_neq_one,divide}) pydict list \<Rightarrow> exn + 'n pydict list) \<Rightarrow> 'n pydict list
     \<Rightarrow> exn + 'n pydict list" where
  "fix_trades super_fix_trades raw = bindE (super_fix_trades raw) fix_trades_loop"

section \<open>The exchange\<close>

definition MAX_PAGINATION_LIMIT :: int where
  "MAX_PAGINATION_LIMIT = 300"

text \<open>
  \<^verbatim>\<open>Coinbase._get_ohlcv_params\<close>. \<open>TimeFramesMinutes\<close> is the table of
  \<^verbatim>\<open>octobot_commons\<close>, which has an entry for every time frame; \<open>milliseconds\<close> is
  what the clock of the client returns; \<open>input_limit\<close> is an \<^verbatim>\<open>int\<close> or
  \<^verbatim>\<open>None\<close>, and \<^verbatim>\<open>not input_limit\<close> holds of \<^verbatim>\<open>None\<close> and of 0.
\<close>

definition get_ohlcv_params ::
  "('tf \<Rightarrow> int) \<Rightarrow> int \<Rightarrow> 'tf \<Rightarrow> int option \<Rightarrow> int pydict \<Rightarrow> int pydict" where
  "get_ohlcv_params TimeFramesMinutes milliseconds time_frame input_limit kwargs =
     (let limit =
        (case input_limit of
           None \<Rightarrow> MAX_PAGINATION_LIMIT
         | Some l \<Rightarrow>
             if l = 0 \<or> l > MAX_PAGINATION_LIMIT then
               (if l \<noteq> 0 then min MAX_PAGINATION_LIMIT l else MAX_PAGINATION_LIMIT)
             else l)
      in if kwargs ''since'' = None then
           (let time_frame_sec = TimeFramesMinutes time_frame * MSECONDS_TO_MINUTE;
                to_time = milliseconds
            in (kwargs(''since'' \<mapsto> PNum (to_time - time_frame_sec * limit)))
                 (''limit'' \<mapsto> PNum limit))
         else kwargs)"

text \<open>
  \<^verbatim>\<open>Coinbase.is_market_open_for_order_type\<close>. \<open>get_market_status symbol\<close> is
  what \<^verbatim>\<open>get_market_status(symbol, with_fixer=False)\<close> returns, as far as its entries
  are dictionaries; \<open>get_trade_order_type\<close> is the function of \<^verbatim>\<open>order_util\<close>;
  \<open>render\<close> prints a dictionary. The result is the returned boolean and what was
  logged.
\<close>

definition market_open_message :: "string \<Rightarrow> string \<Rightarrow> string" where
  "market_open_message missing info =
     ''Can't check '' @ get_name @ '' market opens status for order type: missing '' @ missing
     @ '' in market status info. '' @ get_name
     @ '' API probably changed. Considering market as open. market_status_info: '' @ info"

definition is_market_open_for_order_type ::
  "(string \<Rightarrow> (string \<rightharpoonup> ('n::zero) pydict)) \<Rightarrow> (TraderOrderType \<Rightarrow> TradeOrderType)
     \<Rightarrow> ('n pydict \<Rightarrow> string) \<Rightarrow> string \<Rightarrow> TraderOrderType \<Rightarrow> bool \<times> log_entry list" where
  "is_market_open_for_order_type get_market_status get_trade_order_type render symbol order_type =
     (let market_status_info =
        (case get_market_status symbol CCXT_INFO of None \<Rightarrow> Map.empty | Some info \<Rightarrow> info);
          trade_order_type = get_trade_order_type order_type
      in if trade_order_type = MARKET then
           (case lookup market_status_info ''limit_only'' of
              Inr v \<Rightarrow> (\<not> truthy v, [])
            | Inl err \<Rightarrow>
                (True, [LogException err
                         (market_open_message (message err) (render market_status_info))]))
         else if trade_order_type = LIMIT then
           (case lookup market_status_info ''cancel_only'' of
              Inr v \<Rightarrow> (\<not> truthy v, [])
            | Inl err \<Rightarrow>
                (True, [LogException err
                         (market_open_message (message err) (render market_status_info))]))
         else (True, []))"










definition get_order ::
  "(string \<Rightarrow> string option \<Rightarrow> 'k \<Rightarrow> ('s, 'r) aop) \<Rightarrow> string \<Rightarrow> string option \<Rightarrow> 'k
     \<Rightarrow> string \<Rightarrow> string \<Rightarrow> 's \<Rightarrow> 'r outcome \<times> log_entry list \<times> 's" where
  "get_order super_get_order exchange_order_id symbol kwargs args kwargs_repr =
     coinbase_retrier_wrapper ''get_order'' args kwargs_repr
       (super_get_order exchange_order_id symbol kwargs)"

text \<open>
  \<^verbatim>\<open>Coinbase.create_order\<close> is not under the retrier: it tests its arguments and
  calls the parent class. \<^verbatim>\<open>not current_price\<close> holds of \<^verbatim>\<open>None\<close> and of a zero
  \<^verbatim>\<open>Decimal\<close>. The arguments that are only passed on are gathered in \<open>rest\<close>
  (symbol, quantity, price, stop price, side, reduce-only and params).
\<close>

definition create_order ::
  "(TraderOrderType \<Rightarrow> 'rest \<Rightarrow> ('d::zero) option \<Rightarrow> ('s, 'r) aop)
     \<Rightarrow> TraderOrderType \<Rightarrow> 'rest \<Rightarrow> 'd option \<Rightarrow> 's \<Rightarrow> 'r outcome \<times> 's" where
  "create_order super_create_order order_type rest current_price s =
     (if order_type = BUY_MARKET \<and> (case current_price of None \<Rightarrow> True | Some p \<Rightarrow> p = 0) then
        (Raise (Exn NotSupported ''NotSupported''
                 (''current_price is required for '' @ TraderOrderType_str order_type @ '' orders'')
                 None), s)
      else super_create_order order_type rest current_price s)"


section \<open>What the properties speak of\<close>

text \<open>
  An order on which the three repairs of \<^verbatim>\<open>fix_order\<close> have nothing left to do: it
  has a type, its status is neither of the two exchange statuses, and its amount is set
  or its filled quantity is not.
\<close>

definition settled_order :: "('n::zero) pydict \<Rightarrow> bool" where
  "settled_order fixed =
     ((case fixed ''type'' of None \<Rightarrow> False | Some t \<Rightarrow> t \<noteq> PNone)
      \<and> (case fixed ''status'' of
            None \<Rightarrow> False
          | Some st \<Rightarrow> st \<noteq> PStr ''PENDING'' \<and> st \<noteq> PStr ''CANCEL_QUEUED'')
      \<and> (case fixed ''amount'' of
            None \<Rightarrow> False
          | Some a \<Rightarrow>
              truthy a \<or> (case fixed ''filled'' of None \<Rightarrow> False | Some fl \<Rightarrow> \<not> truthy fl)))"

text \<open>
  A trade as ccxt builds it: its cost and its price, when it has them, are numbers or
  \<^verbatim>\<open>None\<close>.
\<close>

fun number_or_none :: "'n pyval \<Rightarrow> bool" where
  "number_or_none PNone = True"
| "number_or_none (PNum x) = True"
| "number_or_none (PBool b) = False"
| "number_or_none (PStr s) = False"

definition plain_trade :: "'n pydict \<Rightarrow> bool" where
  "plain_trade trade =
     ((case trade ''cost'' of None \<Rightarrow> True | Some c \<Rightarrow> number_or_none c)
      \<and> (case trade ''price'' of None \<Rightarrow> True | Some p \<Rightarrow> number_or_none p))"

text \<open>
  The trade that the spec describes: the status is closed; the amount is cost / price
  when the amount is unset and cost and price are both there and not zero, and is left as
  it is otherwise.
\<close>

definition trade_as_specified :: "('n::{zero_neq_one,divide}) pydict \<Rightarrow> 'n pydict" where
  "trade_as_specified trade =
     (let closed = trade(''status'' \<mapsto> PStr ''closed'')
      in case trade ''amount'' of
           Some PNone \<Rightarrow>
             (case trade ''cost'' of
                Some (PNum c) \<Rightarrow>
                  (case trade ''price'' of
                     Some (PNum p) \<Rightarrow>
                       if c \<noteq> 0 \<and> p \<noteq> 0 then closed(''amount'' \<mapsto> PNum (c div p)) else closed
                   | _ \<Rightarrow> closed)
              | _ \<Rightarrow> closed)
         | _ \<Rightarrow> closed)"


section \<open>Concrete operations and records\<close>

text \<open>
  Operations on a world that only counts the requests it has received, and the errors
  they raise.
\<close>

definition too_many_requests :: exn where
  "too_many_requests =
     Exn RateLimitExceeded ''RateLimitExceeded'' ''coinbase 429 Too Many Requests'' None"

definition invalid_key :: exn where
  "invalid_key = Exn BaseError ''AuthenticationError'' ''coinbase invalid api key'' None"

definition cancelled_429 :: exn where
  "cancelled_429 = Exn OtherException ''CancelledError'' ''429'' None"

definition always_429 :: "(nat, unit) aop" where
  "always_429 = (\<lambda>s. (Raise too_many_requests, Suc s))"

definition always_invalid_key :: "(nat, unit) aop" where
  "always_invalid_key = (\<lambda>s. (Raise invalid_key, Suc s))"

definition always_cancelled :: "(nat, unit) aop" where
  "always_cancelled = (\<lambda>s. (Raise cancelled_429, Suc s))"





text \<open>A parent class that accepts every order, and counts it.\<close>

definition accept_order :: "TraderOrderType \<Rightarrow> unit \<Rightarrow> rat option \<Rightarrow> (nat, string) aop" where
  "accept_order order_type rest current_price = (\<lambda>s. (Return ''order-1'', Suc s))"

text \<open>The table of time frames, for time frames named by their minutes.\<close>

definition frame_minutes :: "nat \<Rightarrow> int" where
  "frame_minutes time_frame = int time_frame"

text \<open>The order of the docstring of \<^verbatim>\<open>fix_order\<close>, and three trades.\<close>

definition docstring_order :: "rat pydict" where
  "docstring_order =
     [''type'' \<mapsto> PNone, ''price'' \<mapsto> PNum (11092 / 100), ''stopPrice'' \<mapsto> PNone,
      ''amount'' \<mapsto> PNum (6798 / 1000), ''filled'' \<mapsto> PNum 0, ''status'' \<mapsto> PStr ''open'']"

definition pending_order :: "rat pydict" where
  "pending_order =
     [''type'' \<mapsto> PStr ''limit'', ''price'' \<mapsto> PNum 10, ''stopPrice'' \<mapsto> PNone,
      ''amount'' \<mapsto> PNone, ''filled'' \<mapsto> PNum 2, ''status'' \<mapsto> PStr ''PENDING'']"

definition quote_trade :: "rat pydict" where
  "quote_trade =
     [''amount'' \<mapsto> PNone, ''cost'' \<mapsto> PNum (75705 / 100), ''price'' \<mapsto> PNum (11134 / 100),
      ''status'' \<mapsto> PStr ''open'']"

definition free_trade :: "rat pydict" where
  "free_trade = [''amount'' \<mapsto> PNone, ''cost'' \<mapsto> PNum 5, ''price'' \<mapsto> PNum 0]"

definition bare_trade :: "rat pydict" where
  "bare_trade = [''amount'' \<mapsto> PNone, ''price'' \<mapsto> PNum 3]"

text \<open>A market status whose info only has \<^verbatim>\<open>cancel_only\<close>, and a printer of infos.\<close>

definition closed_market :: "string \<Rightarrow> (string \<rightharpoonup> rat pydict)" where
  "closed_market symbol = [''info'' \<mapsto> [''cancel_only'' \<mapsto> PBool True]]"

definition unknown_market :: "string \<Rightarrow> (string \<rightharpoonup> rat pydict)" where
  "unknown_market symbol = Map.empty"

text \<open>The trade order type of an order type, for the order types used below.\<close>

definition trade_order_type_of :: "TraderOrderType \<Rightarrow> TradeOrderType" where
  "trade_order_type_of order_type =
     (if order_type = BUY_MARKET \<or> order_type = OtherTraderOrderType ''SELL_MARKET'' then MARKET
      else if order_type = OtherTraderOrderType ''BUY_LIMIT''
              \<or> order_type = OtherTraderOrderType ''SELL_LIMIT'' then LIMIT
      else if order_type = OtherTraderOrderType ''STOP_LOSS'' then STOP_LOSS
      else OtherTradeOrderType ''unknown'')"

definition render_keys :: "rat pydict \<Rightarrow> string" where
  "render_keys d = (if d ''cancel_only'' = None then ''{}'' else ''{'cancel_only': ...}'')"

section \<open>The retrier: exhaustion and immediate failure\<close>

lemma show_nat_5: "show_nat 5 = ''5''"
  by (simp add: show_nat.simps digit_char_def)

lemma counted_apply: "counted f (s, n) = (fst (f s), (snd (f s), Suc n))"
  by (simp add: counted_def split: prod.splits)

lemma state_after_counted: "state_after (counted f) n (s, k) = (state_after f n s, k + n)"
  by (induction n arbitrary: s k) (simp_all add: counted_apply)

text \<open>
  The loop over any list of indices, when every invocation it makes raises an error
  that is retried: it runs once for each index and ends in the wrapped failure.
\<close>

lemma retrier_loop_all_marked:
  assumes "\<forall>n < length ixs. \<exists>e. fst (f (state_after f n s)) = Raise e \<and> instant_retry_error e"
  shows "\<exists>e logged'.
     retrier_loop fname args kwargs f ixs last_error logged s =
       (Raise (Exn FailedRequest ''FailedRequest''
                (failed_request_message fname args kwargs e) (Some e)),
        logged @ logged', state_after f (length ixs) s)
     \<and> length logged' = length ixs
     \<and> (if ixs = [] then
          e = (case last_error of
                 None \<Rightarrow> Exn RuntimeError ''RuntimeError'' ''Unknown Coinbase error'' None
               | Some e' \<Rightarrow> e')
        else fst (f (state_after f (length ixs - 1) s)) = Raise e)"
  using assms
proof (induction ixs arbitrary: s last_error logged)
  case Nil
  then show ?case by (simp add: Let_def)
next
  case (Cons i rest)
  let ?line = "LogDebug (retry_debug_message fname args kwargs i e)"
  from Cons.prems obtain e where e: "fst (f s) = Raise e" "instant_retry_error e"
    by fastforce
  obtain s' where s': "f s = (Raise e, s')"
    using e(1) by (cases "f s") simp
  have "\<forall>n < length rest. \<exists>e. fst (f (state_after f n s')) = Raise e \<and> instant_retry_error e"
  proof (intro allI impI)
    fix n assume "n < length rest"
    then have "Suc n < length (i # rest)" by simp
    with Cons.prems
    have "\<exists>e. fst (f (state_after f (Suc n) s)) = Raise e \<and> instant_retry_error e" by blast
    then show "\<exists>e. fst (f (state_after f n s')) = Raise e \<and> instant_retry_error e"
      using s' by simp
  qed
  from Cons.IH[OF this, of "Some e"
      "logged @ [LogDebug (retry_debug_message fname args kwargs i e)]"]
  obtain e2 logged2 where r:
    "retrier_loop fname args kwargs f rest (Some e)
       (logged @ [LogDebug (retry_debug_message fname args kwargs i e)]) s' =
     (Raise (Exn FailedRequest ''FailedRequest''
              (failed_request_message fname args kwargs e2) (Some e2)),
      (logged @ [LogDebug (retry_debug_message fname args kwargs i e)]) @ logged2,
      state_after f (length rest) s')"
    "length logged2 = length rest"
    "if rest = [] then
       e2 = (case Some e of
               None \<Rightarrow> Exn RuntimeError ''RuntimeError'' ''Unknown Coinbase error'' None
             | Some e' \<Rightarrow> e')
     else fst (f (state_after f (length rest - 1) s')) = Raise e2"
    by blast
  have last: "fst (f (state_after f (length (i # rest) - 1) s)) = Raise e2"
  proof (cases rest)
    case Nil
    with r(3) e(1) show ?thesis by simp
  next
    case (Cons a list)
    with r(3) s' show ?thesis by simp
  qed
  show ?case
    apply (rule exI[of _ e2])
    apply (rule exI[of _ "LogDebug (retry_debug_message fname args kwargs i e) # logged2"])
    using r(1,2) last e(2) s' by (simp add: instant_retry_error_def)
qed

text \<open>
  C1. When every invocation of the wrapped operation raises an error of one of the three
  retried classes whose text contains the retry code 429, the wrapper invokes the
  operation exactly five times (the counter of invocations ends at 5, and the world is in
  the state the fifth invocation left), logs five debug lines, and raises a new
  FailedRequest. Its message holds the name of the operation, its arguments, the number
  of attempts, the retry code, and the text and the class name of the error of the fifth
  invocation; its cause is that error.
\<close>

theorem retrier_exhausts_attempts:
  assumes "\<forall>n<5. \<exists>e. fst (f (state_after f n s)) = Raise e \<and> instant_retry_error e"
  shows "\<exists>e logged.
     fst (f (state_after f 4 s)) = Raise e \<and>
     coinbase_retrier_wrapper fname args kwargs (counted f) (s, 0) =
       (Raise (Exn FailedRequest ''FailedRequest''
                (''Failed Coinbase request after 5 retries on '' @ fname @ ''(args='' @ args
                 @ '' kwargs='' @ kwargs @ '') due to 429 error code. Last error: ''
                 @ message e @ '' ('' @ class_name e @ '')'')
                (Some e)),
        logged, (state_after f 5 s, 5)) \<and>
     length logged = 5"
proof -
  let ?g = "counted f"
  have fst_g: "fst (?g (state_after ?g n (s, 0))) = fst (f (state_after f n s))" for n
    by (simp add: state_after_counted counted_apply)
  have "\<forall>n < length [0..<5]. \<exists>e. fst (?g (state_after ?g n (s, 0))) = Raise e
          \<and> instant_retry_error e"
    using assms by (simp add: fst_g)
  from retrier_loop_all_marked[OF this, of fname args kwargs None "[]"]
  obtain e logged where r:
    "retrier_loop fname args kwargs ?g [0..<5] None [] (s, 0) =
       (Raise (Exn FailedRequest ''FailedRequest''
                (failed_request_message fname args kwargs e) (Some e)),
        [] @ logged, state_after ?g (length [0..<5]) (s, 0))"
    "length logged = length [0..<5]"
    "if [0..<5] = [] then
       e = (case None of
              None \<Rightarrow> Exn RuntimeError ''RuntimeError'' ''Unknown Coinbase error'' None
            | Some e' \<Rightarrow> e')
     else fst (?g (state_after ?g (length [0..<5] - 1) (s, 0))) = Raise e"
    by blast
  have ne: "[0..<5::nat] \<noteq> []" by simp
  have e_last: "fst (f (state_after f 4 s)) = Raise e"
    using r(3) ne fst_g[of 4] by simp
  have msg: "failed_request_message fname args kwargs e =
      ''Failed Coinbase request after 5 retries on '' @ fname @ ''(args='' @ args
      @ '' kwargs='' @ kwargs @ '') due to 429 error code. Last error: ''
      @ message e @ '' ('' @ class_name e @ '')''"
    by (simp add: failed_request_message_def FAKE_RATE_LIMIT_ERROR_INSTANT_RETRY_COUNT_def
        INSTANT_RETRY_ERROR_CODE_def show_nat_5)
  have res: "coinbase_retrier_wrapper fname args kwargs ?g (s, 0) =
       (Raise (Exn FailedRequest ''FailedRequest''
                (failed_request_message fname args kwargs e) (Some e)),
        logged, (state_after f 5 s, 5))"
    using r(1)
    by (simp add: coinbase_retrier_wrapper_def FAKE_RATE_LIMIT_ERROR_INSTANT_RETRY_COUNT_def
        state_after_counted)
  show ?thesis
    using e_last res r(2) unfolding msg by auto
qed

theorem retrier_exhausts_attempts_witness:
  "fst (coinbase_retrier_wrapper ''get_order'' ''('abc',)'' ''{}'' (counted always_429) (0, 0)) =
     Raise (Exn FailedRequest ''FailedRequest''
       (''Failed Coinbase request after 5 retries on get_order(args=('abc',) kwargs={}) due to ''
        @ ''429 error code. Last error: coinbase 429 Too Many Requests (RateLimitExceeded)'')
       (Some too_many_requests))
   \<and> snd (snd (coinbase_retrier_wrapper ''get_order'' ''('abc',)'' ''{}'' (counted always_429)
        (0, 0))) = (5, 5)"
proof -
  have m: "instant_retry_error too_many_requests"
    by (simp add: instant_retry_error_def retrier_catches_def INSTANT_RETRY_ERROR_CODE_def
        too_many_requests_def)
  have h: "\<forall>n<5. \<exists>e. fst (always_429 (state_after always_429 n 0)) = Raise e
             \<and> instant_retry_error e"
    using m by (simp add: always_429_def)
  have s5: "state_after always_429 5 0 = 5"
    by (simp add: always_429_def eval_nat_numeral)
  from retrier_exhausts_attempts[OF h, of "''get_order''" "''('abc',)''" "''{}''"] s5
  show ?thesis
    by (auto simp: always_429_def too_many_requests_def)
qed

text \<open>
  C2. When the first invocation of the wrapped operation raises an error that is not of
  one of the three retried classes, or whose text does not contain the retry code, the
  wrapper raises that same error, after one invocation and with nothing logged: there is
  no retry.
\<close>

theorem retrier_reraises_unmarked:
  assumes "f s = (Raise e, s')"
    and "\<not> retrier_catches e \<or> \<not> str_contains (message e) INSTANT_RETRY_ERROR_CODE"
  shows "coinbase_retrier_wrapper fname args kwargs (counted f) (s, 0) = (Raise e, [], (s', 1))"
  using assms
  by (auto simp: coinbase_retrier_wrapper_def FAKE_RATE_LIMIT_ERROR_INSTANT_RETRY_COUNT_def
      upt_conv_Cons counted_apply)

theorem retrier_reraises_unmarked_witness:
  "coinbase_retrier_wrapper ''get_order'' ''('abc',)'' ''{}'' (counted always_invalid_key) (0, 0) =
     (Raise invalid_key, [], (1, 1))
   \<and> coinbase_retrier_wrapper ''get_order'' ''('abc',)'' ''{}'' (counted always_cancelled) (0, 0) =
     (Raise cancelled_429, [], (1, 1))"
proof -
  have a: "always_invalid_key 0 = (Raise invalid_key, 1)"
    by (simp add: always_invalid_key_def)
  have b: "\<not> retrier_catches invalid_key
           \<or> \<not> str_contains (message invalid_key) INSTANT_RETRY_ERROR_CODE"
    by (simp add: invalid_key_def INSTANT_RETRY_ERROR_CODE_def)
  have c: "always_cancelled 0 = (Raise cancelled_429, 1)"
    by (simp add: always_cancelled_def)
  have d: "\<not> retrier_catches cancelled_429
           \<or> \<not> str_contains (message cancelled_429) INSTANT_RETRY_ERROR_CODE"
    by (simp add: cancelled_429_def retrier_catches_def)
  show ?thesis
    using retrier_reraises_unmarked[where f = always_invalid_key and s = 0, OF a b]
      retrier_reraises_unmarked[where f = always_cancelled and s = 0, OF c d]
    by simp
qed

section \<open>Orders\<close>

lemmas column_defs = CCXT_TYPE_def CCXT_STOP_PRICE_def CCXT_PRICE_def CCXT_STATUS_def
  CCXT_AMOUNT_def CCXT_FILLED_def ECOC_TYPE_def ECOC_STATUS_def ECOC_AMOUNT_def ECOC_COST_def
  ECOC_PRICE_def PENDING_CREATION_value_def PENDING_CANCEL_value_def CLOSED_value_def

lemma fix_order_type_result:
  assumes "fixed ''type'' = Some t" "fixed ''stopPrice'' = Some sp" "fixed ''price'' = Some p"
  shows "fix_order_type fixed =
     Inr (if t = PNone then
            fixed(''type'' \<mapsto> PStr (if sp \<noteq> PNone then ''stop_loss''
                                    else if p = PNone then ''market'' else ''limit''))
          else fixed)"
  using assms by (simp add: fix_order_type_def bindE_def lookup_def column_defs)

lemma fix_order_status_result:
  assumes "fixed ''status'' = Some st"
  shows "fix_order_status fixed =
     Inr (if st = PStr ''PENDING'' then fixed(''status'' \<mapsto> PStr ''pending_creation'')
          else if st = PStr ''CANCEL_QUEUED'' then fixed(''status'' \<mapsto> PStr ''pending_cancel'')
          else fixed)"
  using assms by (simp add: fix_order_status_def bindE_def lookup_def column_defs Let_def)

lemma fix_order_amount_result:
  assumes "fixed ''amount'' = Some a" "fixed ''filled'' = Some fl"
  shows "fix_order_amount fixed =
     Inr (if \<not> truthy a \<and> truthy fl then fixed(''amount'' \<mapsto> fl) else fixed)"
  using assms by (simp add: fix_order_amount_def bindE_def lookup_def column_defs)

text \<open>
  C3. An order that the parent class hands over with its six fields (type, stopPrice,
  price, status, amount, filled) is normalized without error. When its type is
  \<^verbatim>\<open>None\<close>, the type of the result is \<^verbatim>\<open>stop_loss\<close> if the stop price is set,
  whatever the price; otherwise \<^verbatim>\<open>market\<close> if the price is \<^verbatim>\<open>None\<close>; otherwise
  \<^verbatim>\<open>limit\<close>. When its type is set, the result keeps it.
\<close>

theorem fix_order_infers_type:
  assumes "super_fix_order raw = Inr fixed"
    and "fixed ''type'' = Some t" "fixed ''stopPrice'' = Some sp" "fixed ''price'' = Some p"
    and "fixed ''status'' = Some st" "fixed ''amount'' = Some a" "fixed ''filled'' = Some fl"
  shows "\<exists>out. fix_order super_fix_order raw = Inr out \<and>
     out ''type'' =
       Some (if t = PNone then
               PStr (if sp \<noteq> PNone then ''stop_loss''
                     else if p = PNone then ''market'' else ''limit'')
             else t)"
  using assms
  by (simp add: fix_order_def bindE_def fix_order_type_result fix_order_status_result
      fix_order_amount_result)


lemma settled_order_fixpoint:
  assumes "settled_order fixed"
  shows "fix_order Inr fixed = Inr fixed"
  using assms
  by (auto simp: settled_order_def fix_order_def bindE_def fix_order_type_def
      fix_order_status_def fix_order_amount_def lookup_def column_defs
      split: option.splits)

lemma fix_order_type_settles:
  assumes "fix_order_type fixed = Inr out"
  shows "(case out ''type'' of None \<Rightarrow> False | Some t \<Rightarrow> t \<noteq> PNone)"
  using assms
  by (auto simp: fix_order_type_def bindE_def lookup_def column_defs
      split: option.splits if_splits)

lemma fix_order_status_settles:
  assumes "fix_order_status fixed = Inr out"
  shows "out ''type'' = fixed ''type'' \<and>
     (case out ''status'' of None \<Rightarrow> False
      | Some st \<Rightarrow> st \<noteq> PStr ''PENDING'' \<and> st \<noteq> PStr ''CANCEL_QUEUED'')"
  using assms
  by (auto simp: fix_order_status_def bindE_def lookup_def column_defs Let_def
      split: option.splits if_splits)

lemma fix_order_amount_settles:
  assumes "fix_order_amount fixed = Inr out"
  shows "out ''type'' = fixed ''type'' \<and> out ''status'' = fixed ''status'' \<and>
     (case out ''amount'' of None \<Rightarrow> False
      | Some a \<Rightarrow> truthy a \<or> (case out ''filled'' of None \<Rightarrow> False | Some fl \<Rightarrow> \<not> truthy fl))"
  using assms
  by (auto simp: fix_order_amount_def bindE_def lookup_def column_defs
      split: option.splits if_splits)

lemma fix_order_settles:
  assumes "fix_order super_fix_order raw = Inr out"
  shows "settled_order out"
proof -
  from assms obtain fixed f1 f2 where
    steps: "super_fix_order raw = Inr fixed" "fix_order_type fixed = Inr f1"
      "fix_order_status f1 = Inr f2" "fix_order_amount f2 = Inr out"
    by (auto simp: fix_order_def bindE_def split: sum.splits)
  from fix_order_type_settles[OF steps(2)] fix_order_status_settles[OF steps(3)]
    fix_order_amount_settles[OF steps(4)]
  show ?thesis
    by (simp add: settled_order_def)
qed

text \<open>
  C7. Normalizing an order is idempotent: applying the three repairs of
  \<^verbatim>\<open>fix_order\<close> (type, status, amount) to what \<^verbatim>\<open>fix_order\<close> returned gives the
  same record again, and an error of the first pass stays that error.
\<close>

theorem fix_order_idem:
  "bindE (fix_order super_fix_order raw) (fix_order Inr) = fix_order super_fix_order raw"
proof (cases "fix_order super_fix_order raw")
  case (Inl e)
  then show ?thesis by (simp add: bindE_def)
next
  case (Inr out)
  then show ?thesis
    using settled_order_fixpoint[OF fix_order_settles[OF Inr]] by (simp add: bindE_def)
qed

theorem fix_order_idem_witness:
  "bindE (fix_order Inr pending_order) (fix_order Inr) = fix_order Inr pending_order"
  using fix_order_idem[of Inr pending_order] by simp

theorem fix_order_infers_type_witness:
  "\<exists>out. fix_order Inr docstring_order = Inr out \<and> out ''type'' = Some (PStr ''limit'')"
  using fix_order_infers_type[where super_fix_order = Inr and raw = docstring_order
      and fixed = docstring_order and t = PNone and sp = PNone and p = "PNum (11092 / 100)"
      and st = "PStr ''open''" and a = "PNum (6798 / 1000)" and fl = "PNum 0"]
  by (simp add: docstring_order_def)

section \<open>Trades\<close>

lemma fix_trade_plain:
  assumes "plain_trade trade"
  shows "fix_trade trade = Inr (trade_as_specified trade)"
proof -
  let ?closed = "trade(''status'' \<mapsto> PStr ''closed'')"
  have amount: "fix_trade_amount ?closed =
      (case trade ''amount'' of
         None \<Rightarrow> Inl (key_error ''amount'')
       | Some a \<Rightarrow>
          if a = PNone then
            (case trade ''cost'' of
               None \<Rightarrow> Inl (key_error ''cost'')
             | Some c \<Rightarrow>
                 if truthy c then
                   (case trade ''price'' of
                      None \<Rightarrow> Inl (key_error ''price'')
                    | Some p \<Rightarrow>
                        if truthy p then
                          bindE (py_truediv c p) (\<lambda>q. Inr (?closed(''amount'' \<mapsto> q)))
                        else Inr ?closed)
                 else Inr ?closed)
          else Inr ?closed)"
    by (simp add: fix_trade_amount_def bindE_def lookup_def column_defs split: option.splits)
  show ?thesis
  proof (cases "trade ''amount''")
    case None
    then show ?thesis
      by (simp add: fix_trade_def Let_def amount column_defs key_error_def trade_as_specified_def)
  next
    case (Some a)
    show ?thesis
    proof (cases "a = PNone")
      case False
      with Some show ?thesis
        by (cases a) (simp_all add: fix_trade_def Let_def amount column_defs trade_as_specified_def)
    next
      case True
      note a = Some True
      show ?thesis
      proof (cases "trade ''cost''")
        case None
        with a show ?thesis
          by (simp add: fix_trade_def Let_def amount column_defs key_error_def trade_as_specified_def)
      next
        case (Some c)
        note c = Some
        from assms c obtain "number_or_none c" by (simp add: plain_trade_def)
        then show ?thesis
        proof (cases c)
          case PNone
          with a c show ?thesis
            by (simp add: fix_trade_def Let_def amount column_defs trade_as_specified_def)
        next
          case (PNum x)
          note x = PNum
          show ?thesis
          proof (cases "trade ''price''")
            case None
            with a c x show ?thesis
              by (simp add: fix_trade_def Let_def amount column_defs key_error_def trade_as_specified_def)
          next
            case (Some p)
            note p = Some
            from assms p obtain "number_or_none p" by (simp add: plain_trade_def)
            then show ?thesis
            proof (cases p)
              case PNone
              with a c x p show ?thesis
                by (simp add: fix_trade_def Let_def amount column_defs trade_as_specified_def)
            next
              case (PNum y)
              with a c x p show ?thesis
                by (simp add: fix_trade_def Let_def amount column_defs trade_as_specified_def
                    py_truediv_def bindE_def)
            qed simp_all
          qed
        qed simp_all
      qed
    qed
  qed
qed

lemma fix_trades_loop_plain:
  assumes "\<forall>t\<in>set trades. plain_trade t"
  shows "fix_trades_loop trades = Inr (map trade_as_specified trades)"
  using assms by (induction trades) (simp_all add: fix_trade_plain bindE_def)

lemma trade_as_specified_status:
  "trade_as_specified trade ''status'' = Some (PStr ''closed'')"
  by (simp add: trade_as_specified_def Let_def split: option.splits pyval.splits)

lemma fix_trade_amount_no_zero_division:
  "fix_trade_amount trade = Inl e \<Longrightarrow> kind e \<noteq> ZeroDivisionError"
  by (cases "trade ''amount''"; cases "trade ''cost''"; cases "trade ''price''")
     (auto simp: fix_trade_amount_def bindE_def lookup_def column_defs key_error_def
       py_truediv_def split: if_splits option.splits elim!: num_of.elims truthy.elims)

text \<open>
  C5. For an order with its six fields, the status of the normalized order is
  \<^verbatim>\<open>pending_creation\<close> when it was \<^verbatim>\<open>PENDING\<close>, \<^verbatim>\<open>pending_cancel\<close> when it was
  \<^verbatim>\<open>CANCEL_QUEUED\<close>, and the status it had otherwise. For trades whose cost and price
  are numbers or \<^verbatim>\<open>None\<close>, every normalized trade has the status \<^verbatim>\<open>closed\<close>,
  whatever status it had, and no trade is lost.
\<close>

theorem status_normalised:
  assumes "super_fix_order raw = Inr fixed"
    and "fixed ''type'' = Some t" "fixed ''stopPrice'' = Some sp" "fixed ''price'' = Some p"
    and "fixed ''status'' = Some st" "fixed ''amount'' = Some a" "fixed ''filled'' = Some fl"
    and "super_fix_trades raws = Inr trades" "\<forall>trade\<in>set trades. plain_trade trade"
  shows "(\<exists>out. fix_order super_fix_order raw = Inr out \<and>
            out ''status'' =
              Some (if st = PStr ''PENDING'' then PStr ''pending_creation''
                    else if st = PStr ''CANCEL_QUEUED'' then PStr ''pending_cancel''
                    else st))
       \<and> (\<exists>outs. fix_trades super_fix_trades raws = Inr outs \<and> length outs = length trades \<and>
            (\<forall>out\<in>set outs. out ''status'' = Some (PStr ''closed'')))"
proof
  show "\<exists>out. fix_order super_fix_order raw = Inr out \<and>
            out ''status'' =
              Some (if st = PStr ''PENDING'' then PStr ''pending_creation''
                    else if st = PStr ''CANCEL_QUEUED'' then PStr ''pending_cancel''
                    else st)"
    using assms(1-7)
    by (simp add: fix_order_def bindE_def fix_order_type_result fix_order_status_result
        fix_order_amount_result)
next
  have "fix_trades super_fix_trades raws = Inr (map trade_as_specified trades)"
    using assms(8,9) by (simp add: fix_trades_def bindE_def fix_trades_loop_plain)
  then show "\<exists>outs. fix_trades super_fix_trades raws = Inr outs \<and> length outs = length trades \<and>
            (\<forall>out\<in>set outs. out ''status'' = Some (PStr ''closed''))"
    by (auto simp: trade_as_specified_status)
qed

theorem status_normalised_witness:
  "(\<exists>out. fix_order Inr pending_order = Inr out \<and>
       out ''status'' = Some (PStr ''pending_creation''))
   \<and> (\<exists>outs. fix_trades Inr [quote_trade, free_trade, bare_trade] = Inr outs \<and> length outs = 3 \<and>
         list_all (\<lambda>out. out ''status'' = Some (PStr ''closed'')) outs)"
proof -
  have plain: "\<forall>trade\<in>set [quote_trade, free_trade, bare_trade]. plain_trade trade"
    by (simp add: plain_trade_def quote_trade_def free_trade_def bare_trade_def)
  have "Inr [quote_trade, free_trade, bare_trade] = (Inr [quote_trade, free_trade, bare_trade] :: exn + rat pydict list)"
    by simp
  from status_normalised[where super_fix_order = Inr and raw = pending_order
      and fixed = pending_order and t = "PStr ''limit''" and sp = PNone and p = "PNum 10"
      and st = "PStr ''PENDING''" and a = PNone and fl = "PNum 2"
      and super_fix_trades = Inr and raws = "[quote_trade, free_trade, bare_trade]"
      and trades = "[quote_trade, free_trade, bare_trade]", OF _ _ _ _ _ _ _ _ plain]
  show ?thesis
    by (auto simp: pending_order_def list_all_iff)
qed

text \<open>
  C6. For trades whose cost and price are numbers or \<^verbatim>\<open>None\<close>, normalization returns
  each trade as specified: the amount becomes cost / price when the amount is
  \<^verbatim>\<open>None\<close> and cost and price are both present and not zero; in every other case
  (a zero price, a zero cost, a missing field, an amount that is set) the amount is left
  as it is. The repair of the amount never raises a division by zero, for any trade.
\<close>

theorem trade_amount_from_cost:
  assumes "super_fix_trades raws = Inr trades" "\<forall>trade\<in>set trades. plain_trade trade"
  shows "fix_trades super_fix_trades raws = Inr (map trade_as_specified trades)
     \<and> (\<forall>trade e. fix_trade_amount trade = Inl e \<longrightarrow> kind e \<noteq> ZeroDivisionError)"
  using assms
  by (simp add: fix_trades_def bindE_def fix_trades_loop_plain fix_trade_amount_no_zero_division)

theorem trade_amount_from_cost_witness:
  "fix_trades Inr [quote_trade, free_trade, bare_trade] =
     Inr [quote_trade(''status'' \<mapsto> PStr ''closed'', ''amount'' \<mapsto> PNum (75705 / 11134)),
          free_trade(''status'' \<mapsto> PStr ''closed''),
          bare_trade(''status'' \<mapsto> PStr ''closed'')]"
proof -
  have plain: "\<forall>trade\<in>set [quote_trade, free_trade, bare_trade]. plain_trade trade"
    by (simp add: plain_trade_def quote_trade_def free_trade_def bare_trade_def)
  have sup: "Inr [quote_trade, free_trade, bare_trade] =
      (Inr [quote_trade, free_trade, bare_trade] :: exn + rat pydict list)"
    by simp
  have q: "trade_as_specified quote_trade =
      quote_trade(''status'' \<mapsto> PStr ''closed'', ''amount'' \<mapsto> PNum (75705 / 11134))"
    by (simp add: trade_as_specified_def quote_trade_def)
  have f: "trade_as_specified free_trade = free_trade(''status'' \<mapsto> PStr ''closed'')"
    by (simp add: trade_as_specified_def free_trade_def)
  have b: "trade_as_specified bare_trade = bare_trade(''status'' \<mapsto> PStr ''closed'')"
    by (simp add: trade_as_specified_def bare_trade_def)
  from trade_amount_from_cost[where super_fix_trades = Inr, OF sup plain]
  have "fix_trades Inr [quote_trade, free_trade, bare_trade] =
      Inr (map trade_as_specified [quote_trade, free_trade, bare_trade])"
    by (rule conjunct1)
  then show ?thesis
    by (simp add: q f b)
qed

section \<open>Candle parameters and order creation\<close>

text \<open>
  C4, as stated, does not hold: when the caller supplies \<^verbatim>\<open>since\<close> (here with a
  limit of 500) no limit is attached to the parameters; and a requested limit of 0,
  which is present and at most 300, gives the limit 300.
\<close>

theorem ohlcv_params_counterexample:
  "get_ohlcv_params frame_minutes 1000000 1 (Some 500) [''since'' \<mapsto> PNum 5] ''limit'' = None
   \<and> get_ohlcv_params frame_minutes 1000000 1 (Some 0) Map.empty ''limit'' = Some (PNum 300)"
  by (simp add: get_ohlcv_params_def MAX_PAGINATION_LIMIT_def)

text \<open>
  C4, amended. The limit is the requested limit when it is not zero and at most 300, and
  300 when it is larger, zero or absent. When the caller did not supply \<^verbatim>\<open>since\<close>,
  the parameters get \<^verbatim>\<open>since\<close> = now - (minutes of the time frame * 60000 * limit),
  with the clock of the client, and \<^verbatim>\<open>limit\<close>. When the caller supplied
  \<^verbatim>\<open>since\<close>, the parameters are returned as they are, with no limit attached.
\<close>

theorem ohlcv_params_window:
  "get_ohlcv_params TimeFramesMinutes milliseconds time_frame input_limit kwargs =
     (let limit = (case input_limit of
                     None \<Rightarrow> 300
                   | Some l \<Rightarrow> if l = 0 \<or> 300 < l then 300 else l)
      in if kwargs ''since'' = None then
           kwargs(''since'' \<mapsto> PNum (milliseconds - TimeFramesMinutes time_frame * 60000 * limit),
                  ''limit'' \<mapsto> PNum limit)
         else kwargs)"
  by (simp add: get_ohlcv_params_def MAX_PAGINATION_LIMIT_def MSECONDS_TO_MINUTE_def Let_def
      split: option.splits)

theorem ohlcv_params_window_witness:
  "get_ohlcv_params frame_minutes 1000000 1 None Map.empty =
     [''since'' \<mapsto> PNum (1000000 - 60000 * 300), ''limit'' \<mapsto> PNum 300]
   \<and> get_ohlcv_params frame_minutes 1000000 1 (Some 500) Map.empty ''limit'' = Some (PNum 300)
   \<and> get_ohlcv_params frame_minutes 1000000 1 (Some 20) [''since'' \<mapsto> PNum 5] =
       [''since'' \<mapsto> PNum 5]"
  using ohlcv_params_window[of frame_minutes 1000000 1 None Map.empty]
    ohlcv_params_window[of frame_minutes 1000000 1 "Some 500" Map.empty]
    ohlcv_params_window[of frame_minutes 1000000 1 "Some 20" "[''since'' \<mapsto> PNum 5]"]
  by (simp add: frame_minutes_def)

text \<open>
  C8, as stated, does not hold: a market buy with the current price 0 is a combination
  other than "no current price", and it is refused with NotSupported before the parent
  class is called (the world stays in state 0), although the parent would accept it.
\<close>

theorem create_order_counterexample:
  "create_order accept_order BUY_MARKET () (Some 0) 0 =
     (Raise (Exn NotSupported ''NotSupported''
              ''current_price is required for TraderOrderType.BUY_MARKET orders'' None), 0)
   \<and> accept_order BUY_MARKET () (Some 0) 0 = (Return ''order-1'', 1)"
  by (simp add: create_order_def accept_order_def)

text \<open>
  C8, amended. \<^verbatim>\<open>create_order\<close> raises NotSupported, leaving the world as it is and
  whatever the parent class would do, exactly when the order type is market buy and the
  current price is absent or zero; in every other case it is the call of the parent
  class with the same arguments.
\<close>

theorem create_order_precondition:
  "create_order super_create_order order_type rest current_price s =
     (if order_type = BUY_MARKET \<and> (current_price = None \<or> current_price = Some 0) then
        (Raise (Exn NotSupported ''NotSupported''
                 ''current_price is required for TraderOrderType.BUY_MARKET orders'' None), s)
      else super_create_order order_type rest current_price s)"
  by (auto simp: create_order_def split: option.splits)

theorem create_order_precondition_witness:
  "create_order accept_order BUY_MARKET () None 0 =
     (Raise (Exn NotSupported ''NotSupported''
              ''current_price is required for TraderOrderType.BUY_MARKET orders'' None), 0)
   \<and> create_order accept_order BUY_MARKET () (Some 3) 0 = (Return ''order-1'', 1)
   \<and> create_order accept_order (OtherTraderOrderType ''SELL_MARKET'') () None 0 =
       (Return ''order-1'', 1)"
  using create_order_precondition[of accept_order BUY_MARKET "()" None 0]
    create_order_precondition[of accept_order BUY_MARKET "()" "Some 3" 0]
    create_order_precondition[of accept_order "OtherTraderOrderType ''SELL_MARKET''" "()" None 0]
  by (simp add: accept_order_def)


section \<open>The operations under the retrier, and the market status\<close>






text \<open>
  C10. When the order type is a market order and the market status info has no
  \<^verbatim>\<open>limit_only\<close>, or it is a limit order and the info has no \<^verbatim>\<open>cancel_only\<close>, or it
  is neither, \<^verbatim>\<open>is_market_open_for_order_type\<close> returns \<^verbatim>\<open>True\<close>. In the first two
  cases the KeyError is logged, with the missing key in the message, and not raised; in
  the third nothing is logged.
\<close>

theorem market_open_when_unknown:
  assumes "market_status_info =
      (case get_market_status symbol ''info'' of None \<Rightarrow> Map.empty | Some info \<Rightarrow> info)"
    and "trade_order_type = get_trade_order_type order_type"
    and "(trade_order_type = MARKET \<and> market_status_info ''limit_only'' = None)
         \<or> (trade_order_type = LIMIT \<and> market_status_info ''cancel_only'' = None)
         \<or> (trade_order_type \<noteq> MARKET \<and> trade_order_type \<noteq> LIMIT)"
  shows "is_market_open_for_order_type get_market_status get_trade_order_type render
           symbol order_type =
     (True,
      if trade_order_type = MARKET then
        [LogException (key_error ''limit_only'')
           (''Can't check coinbase market opens status for order type: missing 'limit_only' in ''
            @ ''market status info. coinbase API probably changed. Considering market as open. ''
            @ ''market_status_info: '' @ render market_status_info)]
      else if trade_order_type = LIMIT then
        [LogException (key_error ''cancel_only'')
           (''Can't check coinbase market opens status for order type: missing 'cancel_only' in ''
            @ ''market status info. coinbase API probably changed. Considering market as open. ''
            @ ''market_status_info: '' @ render market_status_info)]
      else [])"
  using assms
  by (auto simp: is_market_open_for_order_type_def lookup_def CCXT_INFO_def Let_def
      market_open_message_def get_name_def key_error_def)

theorem market_open_when_unknown_witness:
  "fst (is_market_open_for_order_type closed_market trade_order_type_of render_keys
          ''BTC/USD'' BUY_MARKET) = True
   \<and> length (snd (is_market_open_for_order_type closed_market trade_order_type_of render_keys
          ''BTC/USD'' BUY_MARKET)) = 1
   \<and> is_market_open_for_order_type unknown_market trade_order_type_of render_keys
          ''BTC/USD'' (OtherTraderOrderType ''SELL_LIMIT'') =
       (True,
        [LogException (key_error ''cancel_only'')
           (''Can't check coinbase market opens status for order type: missing 'cancel_only' in ''
            @ ''market status info. coinbase API probably changed. Considering market as open. ''
            @ ''market_status_info: {}'')])
   \<and> is_market_open_for_order_type closed_market trade_order_type_of render_keys
          ''BTC/USD'' (OtherTraderOrderType ''STOP_LOSS'') = (True, [])
   \<and> is_market_open_for_order_type closed_market trade_order_type_of render_keys
          ''BTC/USD'' (OtherTraderOrderType ''SELL_LIMIT'') = (False, [])"
proof -
  have a: "([''cancel_only'' \<mapsto> PBool True] :: rat pydict) =
      (case closed_market ''BTC/USD'' ''info'' of None \<Rightarrow> Map.empty | Some info \<Rightarrow> info)"
    by (simp add: closed_market_def)
  have b: "(Map.empty :: rat pydict) =
      (case unknown_market ''BTC/USD'' ''info'' of None \<Rightarrow> Map.empty | Some info \<Rightarrow> info)"
    by (simp add: unknown_market_def)
  have m: "MARKET = trade_order_type_of BUY_MARKET"
    and l: "LIMIT = trade_order_type_of (OtherTraderOrderType ''SELL_LIMIT'')"
    and t: "STOP_LOSS = trade_order_type_of (OtherTraderOrderType ''STOP_LOSS'')"
    by (simp_all add: trade_order_type_of_def)
  have c: "is_market_open_for_order_type closed_market trade_order_type_of render_keys
          ''BTC/USD'' (OtherTraderOrderType ''SELL_LIMIT'') = (False, [])"
    by (simp add: is_market_open_for_order_type_def closed_market_def lookup_def CCXT_INFO_def
        trade_order_type_of_def)
  show ?thesis
    using market_open_when_unknown[where get_market_status = closed_market
          and render = render_keys and get_trade_order_type = trade_order_type_of
          and symbol = "''BTC/USD''" and order_type = BUY_MARKET
          and trade_order_type = MARKET, OF a m]
      market_open_when_unknown[where get_market_status = unknown_market
          and render = render_keys and get_trade_order_type = trade_order_type_of
          and symbol = "''BTC/USD''" and order_type = "OtherTraderOrderType ''SELL_LIMIT''"
          and trade_order_type = LIMIT, OF b l]
      market_open_when_unknown[where get_market_status = closed_market
          and render = render_keys and get_trade_order_type = trade_order_type_of
          and symbol = "''BTC/USD''" and order_type = "OtherTraderOrderType ''STOP_LOSS''"
          and trade_order_type = STOP_LOSS, OF a t]
    by (simp add: c render_keys_def)
qed

end
